theory Spec2Isabelle
  imports Main "HOL-Library.Sublist"
begin

section \<open>The query URL builder of \<^verbatim>\<open>_notebooks/resources/config.py\<close>\<close>

text \<open>
  The repository is one Python function:
  \<^verbatim>\<open>
  def generate_query(endpoint_url, query, limit):
      raw_query = (f"{endpoint_url}?$query="
                   f"{query}%20"
                   f"limit {limit}"
                  )
      # get rid of control characters
      for replacements in ((" ", "%20"), ("\n", "%20")):
          raw_query = raw_query.replace(*replacements)
      return raw_query
  \<close>
  The specification calls it \<open>build_query_url\<close>. A Python \<open>str\<close> is modelled as a
  \<^typ>\<open>string\<close>; a code point beyond ASCII is read as its UTF-8 bytes, none of which is
  the space or the newline byte. A Python \<open>int\<close> is an unbounded \<^typ>\<open>int\<close>.
\<close>

subsection \<open>Python values and f-string formatting\<close>

text \<open>
  The exceptions a call can end with: the one an argument's own \<open>__format__\<close> raises,
  and the \<open>ValueError\<close> of an int-to-str conversion that the interpreter refuses.
\<close>

datatype py_error = FormatError | ValueError

text \<open>
  The function is dynamically typed. The arguments the specification speaks of are
  \<open>str\<close> and \<open>int\<close> objects; any other object is described by what its
  \<open>__format__\<close> method does with the empty format specification: it raises, or it
  returns a text.
\<close>

datatype py_value = PStr string | PInt int | PObj "py_error + string"

text \<open>\<open>str(n)\<close> for a natural number: its decimal digits, most significant first.\<close>

fun str_nat :: "nat \<Rightarrow> string" where
  "str_nat n =
     (if n < 10 then [''0123456789'' ! n]
      else str_nat (n div 10) @ [''0123456789'' ! (n mod 10)])"

declare str_nat.simps [simp del]

text \<open>\<open>str(n)\<close> for a Python \<open>int\<close>: a minus sign before the digits of a negative number.\<close>

definition str_int :: "int \<Rightarrow> string" where
  "str_int n = (if n < 0 then CHR ''-'' # str_nat (nat (- n)) else str_nat (nat n))"

text \<open>
  A replacement field \<open>{x}\<close> of an f-string is \<open>format(x, "")\<close>: a \<open>str\<close> is
  inserted as it is, an \<open>int\<close> as \<open>str(x)\<close>. This is formatting as the language defines
  it, with no bound on the digits of an \<open>int\<close>: an interpreter older than CPython 3.11,
  or one whose limit on int-to-str conversion is switched off. The interpreter's limit is
  modelled by \<open>format_value_under\<close> below.
\<close>

fun format_value :: "py_value \<Rightarrow> py_error + string" where
  "format_value (PStr s) = Inr s"
| "format_value (PInt n) = Inr (str_int n)"
| "format_value (PObj r) = r"

subsection \<open>\<open>str.replace\<close>\<close>

text \<open>
  \<open>s.replace(old, new)\<close> scans \<open>s\<close> from the left and replaces every occurrence of
  \<open>old\<close> that does not overlap an earlier one by \<open>new\<close>. An empty \<open>old\<close> matches
  before every character and at the end.
\<close>

function replace :: "string \<Rightarrow> string \<Rightarrow> string \<Rightarrow> string" where
  "replace s old new =
     (if old = [] then new @ concat (map (\<lambda>c. c # new) s)
      else if s = [] then []
      else if prefix old s then new @ replace (drop (length old) s) old new
      else hd s # replace (tl s) old new)"
  by pat_completeness auto
termination
  by (relation "measure (\<lambda>(s, old, new). length s)") auto

declare replace.simps [simp del]

subsection \<open>The function\<close>

text \<open>The tuple of pairs the loop runs over: space first, then newline.\<close>

definition replacements :: "(string \<times> string) list" where
  "replacements = [('' '', ''%20''), ([CHR 0x0A], ''%20'')]"

text \<open>
  The \<open>for\<close> loop: each pair is unpacked into the two arguments of \<open>replace\<close>, and
  the result is assigned back to \<open>raw_query\<close>.
\<close>

fun replace_loop :: "(string \<times> string) list \<Rightarrow> string \<Rightarrow> string" where
  "replace_loop [] raw_query = raw_query"
| "replace_loop ((old, new) # rest) raw_query = replace_loop rest (replace raw_query old new)"

text \<open>
  The three replacement fields are formatted from left to right; the first that raises
  ends the call. The three adjacent f-string literals are concatenated.
\<close>

definition generate_query :: "py_value \<Rightarrow> py_value \<Rightarrow> py_value \<Rightarrow> py_error + string" where
  "generate_query endpoint_url query limit =
     (case format_value endpoint_url of
        Inl err \<Rightarrow> Inl err
      | Inr e \<Rightarrow>
          (case format_value query of
             Inl err \<Rightarrow> Inl err
           | Inr q \<Rightarrow>
               (case format_value limit of
                  Inl err \<Rightarrow> Inl err
                | Inr l \<Rightarrow>
                    Inr (replace_loop replacements
                          ((e @ ''?$query='') @ (q @ ''%20'') @ (''limit '' @ l))))))"

subsection \<open>The interpreter's limit on int-to-str conversion\<close>

text \<open>
  From CPython 3.11 on, the interpreter holds a setting, read by
  \<open>sys.get_int_max_str_digits()\<close> and written by \<open>sys.set_int_max_str_digits\<close>:
  4300 by default, 0 for no limit. Converting an \<open>int\<close> to decimal text raises
  \<open>ValueError\<close> when the limit is positive and the number has more digits than the limit;
  the sign is not counted. Formatting a \<open>str\<close> or another object is as before.
\<close>

fun format_value_under :: "nat \<Rightarrow> py_value \<Rightarrow> py_error + string" where
  "format_value_under max_str_digits (PStr s) = Inr s"
| "format_value_under max_str_digits (PInt n) =
     (if 0 < max_str_digits \<and> max_str_digits < length (str_nat (nat \<bar>n\<bar>))
      then Inl ValueError
      else Inr (str_int n))"
| "format_value_under max_str_digits (PObj r) = r"

text \<open>
  The function, run by an interpreter whose setting is \<open>max_str_digits\<close>. The body is
  that of \<^const>\<open>generate_query\<close>; only the formatting of the replacement fields looks at
  the setting.
\<close>

definition generate_query_under ::
  "nat \<Rightarrow> py_value \<Rightarrow> py_value \<Rightarrow> py_value \<Rightarrow> py_error + string" where
  "generate_query_under max_str_digits endpoint_url query limit =
     (case format_value_under max_str_digits endpoint_url of
        Inl err \<Rightarrow> Inl err
      | Inr e \<Rightarrow>
          (case format_value_under max_str_digits query of
             Inl err \<Rightarrow> Inl err
           | Inr q \<Rightarrow>
               (case format_value_under max_str_digits limit of
                  Inl err \<Rightarrow> Inl err
                | Inr l \<Rightarrow>
                    Inr (replace_loop replacements
                          ((e @ ''?$query='') @ (q @ ''%20'') @ (''limit '' @ l))))))"

subsection \<open>The specification's wording\<close>

text \<open>
  The specification describes the substitution step character by character: every space is
  replaced by \<open>%20\<close>, and afterwards every newline is. These definitions follow its
  words; they are compared with \<^const>\<open>replace\<close> and \<^const>\<open>replace_loop\<close> below.
\<close>

definition spec_replace_every :: "char \<Rightarrow> string \<Rightarrow> string \<Rightarrow> string" where
  "spec_replace_every c new s = concat (map (\<lambda>x. if x = c then new else [x]) s)"

definition spec_substitute :: "string \<Rightarrow> string" where
  "spec_substitute s =
     spec_replace_every (CHR 0x0A) ''%20'' (spec_replace_every CHR '' '' ''%20'' s)"

text \<open>
  One pass that does both substitutions at once, and the characters it leaves alone.
\<close>

definition encode_char :: "char \<Rightarrow> string" where
  "encode_char c = (if c = CHR '' '' \<or> c = CHR 0x0A then ''%20'' else [c])"

definition passed_through :: "char \<Rightarrow> bool" where
  "passed_through c = (c \<noteq> CHR '' '' \<and> c \<noteq> CHR 0x0A)"

section \<open>Properties\<close>

subsection \<open>\<open>replace\<close> on a one-character pattern\<close>

lemma replace_Nil: "replace [] [c] new = []"
  by (simp add: replace.simps)

lemma replace_Cons:
  "replace (x # xs) [c] new = (if x = c then new else [x]) @ replace xs [c] new"
  by (subst replace.simps) simp

lemma replace_char: "replace s [c] new = spec_replace_every c new s"
  by (induction s) (simp_all add: replace_Nil replace_Cons spec_replace_every_def)

lemma replace_loop_replacements: "replace_loop replacements s = spec_substitute s"
  by (simp add: replacements_def spec_substitute_def replace_char)

lemma spec_substitute_encode: "spec_substitute s = concat (map encode_char s)"
  by (induction s) (simp_all add: spec_substitute_def spec_replace_every_def encode_char_def)

lemma encode_clean:
  "CHR '' '' \<notin> set (concat (map encode_char s)) \<and> CHR 0x0A \<notin> set (concat (map encode_char s))"
  by (induction s) (auto simp add: encode_char_def)

lemma encode_absent:
  "CHR '' '' \<notin> set s \<Longrightarrow> CHR 0x0A \<notin> set s \<Longrightarrow> concat (map encode_char s) = s"
  by (induction s) (auto simp add: encode_char_def)

subsection \<open>The digits of \<open>str\<close>\<close>

lemma digit_char: "k < 10 \<Longrightarrow> ''0123456789'' ! k \<in> set ''0123456789''"
  by (rule nth_mem) simp

lemma str_nat_digits: "set (str_nat n) \<subseteq> set ''0123456789''"
proof (induction n rule: str_nat.induct)
  case (1 n)
  show ?case
  proof (cases "n < 10")
    case True
    then show ?thesis using digit_char [of n] by (subst str_nat.simps) simp
  next
    case False
    have "n mod 10 < 10" by simp
    then have "''0123456789'' ! (n mod 10) \<in> set ''0123456789''" by (rule digit_char)
    with False "1.IH" show ?thesis by (subst str_nat.simps) simp
  qed
qed

lemma str_nat_clean: "CHR '' '' \<notin> set (str_nat n) \<and> CHR 0x0A \<notin> set (str_nat n)"
proof -
  have "CHR '' '' \<notin> set ''0123456789''" and "CHR 0x0A \<notin> set ''0123456789''"
    by simp_all
  with str_nat_digits [of n] show ?thesis by blast
qed

lemma str_int_clean: "CHR '' '' \<notin> set (str_int n) \<and> CHR 0x0A \<notin> set (str_int n)"
  using str_nat_clean [of "nat n"] str_nat_clean [of "nat (- n)"]
  by (simp add: str_int_def)

subsection \<open>The result on text and integer arguments\<close>

lemma generate_query_text:
  "generate_query (PStr e) (PStr q) (PInt n) =
     Inr (spec_substitute (e @ ''?$query='' @ q @ ''%20limit '' @ str_int n))"
  by (simp add: generate_query_def replace_loop_replacements)

lemma encode_str_int: "concat (map encode_char (str_int n)) = str_int n"
  using str_int_clean [of n] by (simp add: encode_absent)

lemma generate_query_encode:
  "generate_query (PStr e) (PStr q) (PInt n) =
     Inr (concat (map encode_char e) @ ''?$query='' @ concat (map encode_char q) @
          ''%20limit%20'' @ str_int n)"
  by (simp add: generate_query_text spec_substitute_encode encode_str_int)
    (simp add: encode_char_def)

lemma replace_loop_clean:
  "CHR '' '' \<notin> set s \<Longrightarrow> CHR 0x0A \<notin> set s \<Longrightarrow> replace_loop replacements s = s"
  by (simp add: replace_loop_replacements spec_substitute_encode encode_absent)

lemma replace_loop_encode: "replace_loop replacements s = concat (map encode_char s)"
  by (simp add: replace_loop_replacements spec_substitute_encode)

lemma subseq_encode: "subseq (filter passed_through s) (concat (map encode_char s))"
  by (induction s) (auto simp add: passed_through_def encode_char_def)

lemma encode_newline_as_space:
  "concat (map encode_char (map (\<lambda>c. if c = CHR 0x0A then CHR '' '' else c) q)) =
   concat (map encode_char q)"
  by (induction q) (simp_all add: encode_char_def)

text \<open>
  The error branch of the model is live: an object whose \<open>__format__\<close> raises makes the
  call raise, whatever the other arguments are.
\<close>

lemma generate_query_format_failure:
  "generate_query (PObj (Inl err)) query limit = Inl err"
  by (simp add: generate_query_def)

subsection \<open>The function under the interpreter's limit\<close>

lemma str_nat_length_power: "length (str_nat (10 ^ k)) = Suc k"
proof (induction k)
  case 0
  show ?case by (subst str_nat.simps) simp
next
  case (Suc k)
  have "\<not> (10::nat) * 10 ^ k < 10" by simp
  then show ?case using Suc by (subst str_nat.simps) simp
qed

lemma format_value_under_power:
  "0 < L \<Longrightarrow> L \<le> k \<Longrightarrow> format_value_under L (PInt (10 ^ k)) = Inl ValueError"
  by (simp add: nat_power_eq str_nat_length_power)



lemma format_value_under_within:
  "L = 0 \<or> length (str_nat (nat \<bar>n\<bar>)) \<le> L \<Longrightarrow>
   format_value_under L (PInt n) = Inr (str_int n)"
  by auto



lemma generate_query_under_within:
  assumes "L = 0 \<or> length (str_nat (nat \<bar>n\<bar>)) \<le> L"
  shows "generate_query_under L (PStr e) (PStr q) (PInt n) =
           generate_query (PStr e) (PStr q) (PInt n)"
  using format_value_under_within [OF assms]
  by (simp add: generate_query_under_def generate_query_def)

lemma generate_query_under_power:
  assumes "0 < L" and "L \<le> k"
  shows "generate_query_under L (PStr e) (PStr q) (PInt (10 ^ k)) = Inl ValueError"
  using format_value_under_power [OF assms]
  by (simp add: generate_query_under_def)


section \<open>The claims\<close>

text \<open>
  C1. For every text \<open>e\<close>, text \<open>q\<close> and integer \<open>n\<close>, the function returns the string
  obtained by assembling \<open>e + "?$query=" + q + "%20limit " + str(n)\<close> and then, over the
  whole assembled string, replacing every space by \<open>%20\<close> and afterwards every newline by
  \<open>%20\<close>. The left side is the source's \<open>str.replace\<close> loop, the right side the
  character-wise substitution of the specification.
\<close>

theorem generate_query_assemble_then_substitute:
  "generate_query (PStr e) (PStr q) (PInt n) =
     Inr (spec_substitute (e @ ''?$query='' @ q @ ''%20limit '' @ str_int n))"
  by (rule generate_query_text)

text \<open>
  C2, as amended. For every text \<open>e\<close>, text \<open>q\<close> and integer \<open>n \<ge> 0\<close> such that
  \<open>e\<close> and \<open>q\<close> contain no space and no newline, the function returns
  \<open>e + "?$query=" + q + "%20limit%20" + str(n)\<close>: the space that the template has between
  \<open>limit\<close> and the number is replaced by \<open>%20\<close> like every other space, and nothing else
  changes.
\<close>

theorem generate_query_plain:
  assumes "CHR '' '' \<notin> set e" and "CHR 0x0A \<notin> set e"
    and "CHR '' '' \<notin> set q" and "CHR 0x0A \<notin> set q" and "0 \<le> n"
  shows "generate_query (PStr e) (PStr q) (PInt n) =
           Inr (e @ ''?$query='' @ q @ ''%20limit%20'' @ str_int n)"
  using assms by (simp add: generate_query_encode encode_absent)

text \<open>The amended C2 at an endpoint, a query without blanks and the limit 10.\<close>

theorem generate_query_plain_witness:
  "CHR '' '' \<notin> set ''https://example.org/resource'' \<and>
   CHR 0x0A \<notin> set ''https://example.org/resource'' \<and>
   CHR '' '' \<notin> set ''SELECT'' \<and> CHR 0x0A \<notin> set ''SELECT'' \<and> (0::int) \<le> 10 \<and>
   generate_query (PStr ''https://example.org/resource'') (PStr ''SELECT'') (PInt 10) =
     Inr ''https://example.org/resource?$query=SELECT%20limit%2010''"
  using generate_query_plain [of "''https://example.org/resource''" "''SELECT''" 10]
  by (simp add: str_int_def str_nat.simps)

text \<open>
  C2 as it is written fails: with \<open>e = "u"\<close>, \<open>q = "q"\<close> and \<open>n = 7\<close>, which contain no
  space and no newline, the result is \<open>u?$query=q%20limit%207\<close> and not
  \<open>u?$query=q%20limit 7\<close>.
\<close>

theorem literal_space_counterexample:
  "CHR '' '' \<notin> set ''u'' \<and> CHR 0x0A \<notin> set ''u'' \<and>
   CHR '' '' \<notin> set ''q'' \<and> CHR 0x0A \<notin> set ''q'' \<and> (0::int) \<le> 7 \<and>
   generate_query (PStr ''u'') (PStr ''q'') (PInt 7) \<noteq>
     Inr (''u'' @ ''?$query='' @ ''q'' @ ''%20limit '' @ str_int 7)"
  by (simp add: generate_query_encode encode_char_def str_int_def str_nat.simps)

text \<open>
  C3, as amended. On \<open>"https://example.org/resource"\<close>, \<open>"SELECT *"\<close> and \<open>10\<close> the
  function returns \<open>https://example.org/resource?$query=SELECT%20*%20limit%2010\<close>. The
  result is computed from the source's definitions, with \<open>str.replace\<close> run as it is.
\<close>

theorem scenario_1:
  "generate_query (PStr ''https://example.org/resource'') (PStr ''SELECT *'') (PInt 10) =
     Inr ''https://example.org/resource?$query=SELECT%20*%20limit%2010''"
  by (simp add: generate_query_def replacements_def replace.simps str_int_def str_nat.simps)

text \<open>C3 as it is written fails: the result does not keep a space before \<open>10\<close>.\<close>

theorem scenario_1_counterexample:
  "generate_query (PStr ''https://example.org/resource'') (PStr ''SELECT *'') (PInt 10) \<noteq>
     Inr ''https://example.org/resource?$query=SELECT%20*%20limit 10''"
  by (simp add: generate_query_def replacements_def replace.simps str_int_def str_nat.simps)

text \<open>
  C4, as amended. On \<open>"https://example.org/resource"\<close>, the query \<open>"a b\nc"\<close> with a
  space and a newline, and \<open>5\<close>, the function returns
  \<open>https://example.org/resource?$query=a%20b%20c%20limit%205\<close>.
\<close>

theorem scenario_2:
  "generate_query (PStr ''https://example.org/resource'') (PStr (''a b'' @ [CHR 0x0A] @ ''c''))
     (PInt 5) =
     Inr ''https://example.org/resource?$query=a%20b%20c%20limit%205''"
  by (simp add: generate_query_def replacements_def replace.simps str_int_def str_nat.simps)

text \<open>C4 as it is written fails: the result does not keep a space before \<open>5\<close>.\<close>

theorem scenario_2_counterexample:
  "generate_query (PStr ''https://example.org/resource'') (PStr (''a b'' @ [CHR 0x0A] @ ''c''))
     (PInt 5) \<noteq>
     Inr ''https://example.org/resource?$query=a%20b%20c%20limit 5''"
  by (simp add: generate_query_def replacements_def replace.simps str_int_def str_nat.simps)

text \<open>
  C5. For every \<open>e\<close>, \<open>q\<close> and \<open>n\<close>, every space and every newline of the assembled
  string, those of \<open>e\<close> and \<open>q\<close> included, is replaced by \<open>%20\<close>: the result is the
  assembled string with each character encoded on its own. So the result contains no space
  and no newline.
\<close>

theorem generate_query_no_space_no_newline:
  "\<exists>r. generate_query (PStr e) (PStr q) (PInt n) = Inr r \<and>
     r = concat (map encode_char (e @ ''?$query='' @ q @ ''%20limit '' @ str_int n)) \<and>
     CHR '' '' \<notin> set r \<and> CHR 0x0A \<notin> set r"
  using encode_clean [of "e @ ''?$query='' @ q @ ''%20limit '' @ str_int n"]
  by (simp only: generate_query_text spec_substitute_encode) blast

text \<open>
  C6. The substitution step is idempotent: running the loop of the source on its own
  result changes nothing, and neither does the specification's substitution applied twice.
  In particular the loop leaves the result of the function as it is.
\<close>

theorem substitution_idempotent:
  "replace_loop replacements (replace_loop replacements s) = replace_loop replacements s \<and>
   spec_substitute (spec_substitute s) = spec_substitute s \<and>
   (\<exists>r. generate_query (PStr e) (PStr q) (PInt n) = Inr r \<and>
        replace_loop replacements r = r)"
proof (intro conjI)
  have "replace_loop replacements (concat (map encode_char s)) = concat (map encode_char s)"
    using encode_clean [of s] by (simp add: replace_loop_clean)
  then show twice: "replace_loop replacements (replace_loop replacements s) =
      replace_loop replacements s"
    by (simp only: replace_loop_encode)
  then show "spec_substitute (spec_substitute s) = spec_substitute s"
    by (simp only: replace_loop_replacements)
next
  let ?a = "e @ ''?$query='' @ q @ ''%20limit '' @ str_int n"
  have "generate_query (PStr e) (PStr q) (PInt n) = Inr (concat (map encode_char ?a))"
    by (simp only: generate_query_text spec_substitute_encode)
  moreover have "replace_loop replacements (concat (map encode_char ?a)) =
      concat (map encode_char ?a)"
    using encode_clean [of ?a] by (simp add: replace_loop_clean)
  ultimately show "\<exists>r. generate_query (PStr e) (PStr q) (PInt n) = Inr r \<and>
        replace_loop replacements r = r"
    by blast
qed

text \<open>
  C7. Characters other than space and newline are passed through unescaped. The result is
  made of \<open>e\<close> and \<open>q\<close> encoded character by character, where \<^const>\<open>encode_char\<close>
  returns every character other than space and newline as it is; so the characters of
  \<open>e\<close> and \<open>q\<close> that are neither space nor newline appear in the result in their order.
\<close>

theorem generate_query_passes_through:
  "\<exists>r. generate_query (PStr e) (PStr q) (PInt n) = Inr r \<and>
     r = concat (map encode_char e) @ ''?$query='' @ concat (map encode_char q) @
           ''%20limit%20'' @ str_int n \<and>
     subseq (filter passed_through e @ filter passed_through q) r"
proof -
  have "subseq (filter passed_through e @ [] @ filter passed_through q @ [])
     (concat (map encode_char e) @ ''?$query='' @ concat (map encode_char q) @
           (''%20limit%20'' @ str_int n))"
    by (intro list_emb_append_mono subseq_encode list_emb_Nil)
  then show ?thesis by (simp add: generate_query_encode)
qed




text \<open>
  C9, as amended. The function is total on text, text and an integer within the
  interpreter's limit: when the limit is switched off, or the integer has no more digits
  than the limit (4300 by default), the function returns a string, and no error is its
  outcome.
\<close>

theorem generate_query_total_within_limit:
  assumes "max_str_digits = 0 \<or> length (str_nat (nat \<bar>n\<bar>)) \<le> max_str_digits"
  shows "(\<exists>r. generate_query_under max_str_digits (PStr e) (PStr q) (PInt n) = Inr r) \<and>
         (\<forall>err. generate_query_under max_str_digits (PStr e) (PStr q) (PInt n) \<noteq> Inl err)"
  by (simp add: generate_query_under_within [OF assms] generate_query_text)

text \<open>The amended C9 under the default limit 4300, at the limit 10 of two digits.\<close>

theorem generate_query_total_within_limit_witness:
  "length (str_nat (nat \<bar>10\<bar>)) \<le> 4300 \<and>
   (\<exists>r. generate_query_under 4300 (PStr ''https://example.org/resource'') (PStr ''SELECT *'')
          (PInt 10) = Inr r)"
  using generate_query_total_within_limit
    [of 4300 10 "''https://example.org/resource''" "''SELECT *''"]
  by (simp add: str_nat.simps)

text \<open>
  C9 as it is written fails: on \<open>"u"\<close>, \<open>"q"\<close> and the integer \<open>10 ** 4300\<close>, under the
  default limit 4300, the call raises \<open>ValueError\<close> and returns no string.
\<close>

theorem long_integer_counterexample:
  "generate_query_under 4300 (PStr ''u'') (PStr ''q'') (PInt (10 ^ 4300)) = Inl ValueError"
  by (rule generate_query_under_power) simp_all

text \<open>
  C10. The function does not tell a newline in the query from a space: replacing every
  newline of \<open>q\<close> by a space gives the same result, so the function is not injective in
  its query argument.
\<close>

theorem generate_query_newline_as_space:
  "generate_query (PStr e) (PStr (map (\<lambda>c. if c = CHR 0x0A then CHR '' '' else c) q)) (PInt n) =
     generate_query (PStr e) (PStr q) (PInt n) \<and>
   \<not> inj (\<lambda>q. generate_query (PStr e) (PStr q) (PInt n))"
proof
  show "generate_query (PStr e) (PStr (map (\<lambda>c. if c = CHR 0x0A then CHR '' '' else c) q)) (PInt n) =
     generate_query (PStr e) (PStr q) (PInt n)"
    by (simp only: generate_query_encode encode_newline_as_space)
next
  have "generate_query (PStr e) (PStr [CHR 0x0A]) (PInt n) =
      generate_query (PStr e) (PStr '' '') (PInt n)"
    by (simp add: generate_query_encode encode_char_def)
  moreover have "[CHR 0x0A] \<noteq> '' ''" by simp
  ultimately show "\<not> inj (\<lambda>q. generate_query (PStr e) (PStr q) (PInt n))"
    by (auto simp add: inj_def)
qed

end
